theory Spec2Isabelle
  imports Main "HOL-Library.Word"
begin

section \<open>Data model of the health-check engine\<close>

text \<open>
  The package under verification is \<^verbatim>\<open>pkg/healthcheck\<close>: the file holding
  \<^verbatim>\<open>ExecuteHealthCheck\<close>, \<^verbatim>\<open>probeHealthCheck\<close>, \<^verbatim>\<open>updateHealthStatus\<close> and
  \<^verbatim>\<open>prepareProcessSpec\<close>. Go's \<^verbatim>\<open>int\<close> is a 64-bit two's-complement word;
  \<^verbatim>\<open>time.Time\<close> is an instant counted in nanoseconds from the zero instant, and
  \<^verbatim>\<open>time.Duration\<close> a number of nanoseconds.
\<close>

type_synonym go_int = "64 word"
type_synonym Time = int
type_synonym Duration = int

datatype HealthStatus = Starting | Healthy | Unhealthy

record HealthState =
  Status :: HealthStatus
  FailingStreak :: go_int

record HealthcheckResult =
  Start :: Time
  End :: Time
  ExitCode :: go_int
  Output :: string

record Healthcheck =
  Test :: "string list"
  Interval :: Duration
  Timeout :: Duration
  StartPeriod :: Duration
  StartInterval :: Duration
  Retries :: go_int

text \<open>
  A Go \<^verbatim>\<open>error\<close> value. \<^verbatim>\<open>fmt.Errorf("prefix: %w", err)\<close> is \<open>Wrapped prefix err\<close>;
  an error built from a plain message is \<open>Error msg\<close>. A run-time panic that unwinds
  through the caller is kept apart as \<open>RuntimePanic\<close>.
\<close>

datatype error = Error string | Wrapped string error | RuntimePanic string

fun Error_text :: "error \<Rightarrow> string" where
  "Error_text (Error msg) = msg"
| "Error_text (Wrapped prefix err) = prefix @ Error_text err"
| "Error_text (RuntimePanic msg) = msg"

fun Unwrap :: "error \<Rightarrow> error option" where
  "Unwrap (Wrapped prefix err) = Some err"
| "Unwrap (Error msg) = None"
| "Unwrap (RuntimePanic msg) = None"

text \<open>The process spec handed to the runtime (\<^verbatim>\<open>specs.Process\<close>, the four fields used).\<close>

record User =
  UID :: "32 word"
  GID :: "32 word"
  Username :: string

record Process =
  Args :: "string list"
  Env :: "string list"
  User :: User
  Cwd :: string

text \<open>
  The container record as this package sees it: its creation time, the process of its
  OCI spec, the persisted health state (absent until first written), the health log, and
  whether the start-period timer unit is still registered.
\<close>

record container =
  CreatedAt :: Time
  SpecProcess :: Process
  HealthStateLabel :: "HealthState option"
  HealthLog :: "HealthcheckResult list"
  StartPeriodTimer :: bool

text \<open>
  What the runtime does with the probe process of one invocation: each of the three calls
  \<^verbatim>\<open>task.Exec\<close>, \<^verbatim>\<open>process.Start\<close>, \<^verbatim>\<open>process.Wait\<close> may fail; otherwise the
  \<^verbatim>\<open>select\<close> of \<^verbatim>\<open>probeHealthCheck\<close> sees either the timeout first (with what the
  output buffer's \<^verbatim>\<open>String()\<close> holds at that moment) or the exit status first (with the
  exit code and the buffer's contents).
\<close>

datatype exec_outcome =
    ExecFails error
  | StartFails error
  | WaitFails error
  | TimedOut string
  | Exited "32 word" string

text \<open>
  Everything one invocation reads from outside: the two readings of \<^verbatim>\<open>time.Now()\<close>,
  the behaviour of the probe process, the failures of the collaborators (labels, container
  info, label update, log file, container spec, timer removal), and the two library
  functions the package does not define: the \<^verbatim>\<open>%v\<close> formatting of a duration and the
  retention capacity of the health log.
\<close>

record env =
  now_start :: Time
  now_end :: Time
  exec_outcome :: exec_outcome
  labels_err :: "error option"
  info_err :: "error option"
  setlabels_err :: "error option"
  healthlog_err :: "error option"
  spec_err :: "error option"
  timer_err :: "error option"
  Duration_String :: "Duration \<Rightarrow> string"
  MaxLogEntries :: nat

text \<open>The task: the process specs handed to \<^verbatim>\<open>task.Exec\<close> so far, and the kills sent.\<close>

record task =
  Execs :: "Process list"
  Kills :: nat

section \<open>Collaborators\<close>

text \<open>
  \<^verbatim>\<open>Time.Sub\<close> of the Go library: the difference, saturated to the range of a
  \<^verbatim>\<open>Duration\<close>.
\<close>

definition minDuration :: Duration where
  "minDuration = - (2 ^ 63)"

definition maxDuration :: Duration where
  "maxDuration = 2 ^ 63 - 1"

definition Time_Sub :: "Time \<Rightarrow> Time \<Rightarrow> Duration" where
  "Time_Sub t u =
     (let d = t - u in
      if d < minDuration then minDuration
      else if maxDuration < d then maxDuration
      else d)"

text \<open>
  Modelled from the spec: \<^verbatim>\<open>readHealthStateFromLabels\<close> is not among the source files.
  It is the State Repository's get: the persisted health state of the container, nothing
  when none was written yet, or the failure of the attribute store.
\<close>

definition readHealthStateFromLabels :: "env \<Rightarrow> container \<Rightarrow> error + HealthState option" where
  "readHealthStateFromLabels env container =
     (case labels_err env of
        Some err \<Rightarrow> Inl err
      | None \<Rightarrow> Inr (HealthStateLabel container))"

text \<open>
  Modelled from the spec: \<^verbatim>\<open>writeHealthStateToLabels\<close> is not among the source files.
  It is the State Repository's set: it overwrites the persisted health state, or fails and
  leaves it as it was.
\<close>

definition writeHealthStateToLabels ::
  "env \<Rightarrow> container \<Rightarrow> HealthState \<Rightarrow> error option \<times> container" where
  "writeHealthStateToLabels env container health =
     (case setlabels_err env of
        Some err \<Rightarrow> (Some err, container)
      | None \<Rightarrow> (None, container\<lparr>HealthStateLabel := Some health\<rparr>))"

text \<open>
  Modelled from the spec: \<^verbatim>\<open>writeHealthLog\<close> is not among the source files. It appends
  the result to the bounded health log, which keeps the last \<open>MaxLogEntries\<close> results
  (oldest evicted first), or fails and leaves the log as it was.
\<close>

definition keep_last :: "nat \<Rightarrow> 'a list \<Rightarrow> 'a list" where
  "keep_last n xs = drop (length xs - n) xs"

definition writeHealthLog ::
  "env \<Rightarrow> container \<Rightarrow> HealthcheckResult \<Rightarrow> error option \<times> container" where
  "writeHealthLog env container result =
     (case healthlog_err env of
        Some err \<Rightarrow> (Some err, container)
      | None \<Rightarrow>
          (None, container\<lparr>HealthLog := keep_last (MaxLogEntries env) (HealthLog container @ [result])\<rparr>))"

text \<open>\<^verbatim>\<open>container.Info(ctx)\<close>, of which only \<^verbatim>\<open>CreatedAt\<close> is read.\<close>

definition container_Info :: "env \<Rightarrow> container \<Rightarrow> error + Time" where
  "container_Info env container =
     (case info_err env of
        Some err \<Rightarrow> Inl err
      | None \<Rightarrow> Inr (CreatedAt container))"

text \<open>\<^verbatim>\<open>container.Spec(ctx)\<close>, of which only \<^verbatim>\<open>spec.Process\<close> is read.\<close>

definition container_Spec :: "env \<Rightarrow> container \<Rightarrow> error + Process" where
  "container_Spec env container =
     (case spec_err env of
        Some err \<Rightarrow> Inl err
      | None \<Rightarrow> Inr (SpecProcess container))"

text \<open>
  \<^verbatim>\<open>RemoveStartPeriodTimer\<close>: stops the start-period timer unit of the container, or
  fails before touching it. (The build without systemd returns \<^verbatim>\<open>nil\<close> and has no timer.)
\<close>

definition RemoveStartPeriodTimer :: "env \<Rightarrow> container \<Rightarrow> error option \<times> container" where
  "RemoveStartPeriodTimer env container =
     (case timer_err env of
        Some err \<Rightarrow> (Some err, container)
      | None \<Rightarrow> (None, container\<lparr>StartPeriodTimer := False\<rparr>))"

section \<open>The health state machine\<close>

text \<open>
  The \<^verbatim>\<open>switch workflowType\<close> of \<^verbatim>\<open>updateHealthStatus\<close>. \<open>Inl\<close> is a \<^verbatim>\<open>return\<close>
  from inside the switch (the value returned and the container as left); \<open>Inr\<close> falls
  through to the write-back with the health state as mutated. A failure of
  \<^verbatim>\<open>RemoveStartPeriodTimer\<close> is only logged.
\<close>

definition updateHealthStatus_switch ::
  "env \<Rightarrow> container \<Rightarrow> HealthState \<Rightarrow> bool \<Rightarrow> Healthcheck \<Rightarrow> HealthcheckResult \<Rightarrow> string
     \<Rightarrow> (error option \<times> container) + (HealthState \<times> container)" where
  "updateHealthStatus_switch env container currentHealth stillInStartPeriod hcConfig hcResult workflowType =
     (if workflowType = ''start-period'' then
        (if Status currentHealth = Healthy \<or> \<not> stillInStartPeriod then
           Inl (None, snd (RemoveStartPeriodTimer env container))
         else if ExitCode hcResult = 0 then
           Inr (currentHealth\<lparr>Status := Healthy, FailingStreak := 0\<rparr>,
                snd (RemoveStartPeriodTimer env container))
         else Inr (currentHealth, container))
      else if workflowType = ''health-interval'' then
        (if ExitCode hcResult = 0 then
           Inr (currentHealth\<lparr>Status := Healthy, FailingStreak := 0\<rparr>, container)
         else if \<not> stillInStartPeriod then
           (let counted = currentHealth\<lparr>FailingStreak := FailingStreak currentHealth + 1\<rparr> in
            if sint (Retries hcConfig) \<le> sint (FailingStreak counted) then
              Inr (counted\<lparr>Status := Unhealthy\<rparr>, container)
            else Inr (counted, container))
         else Inr (currentHealth, container))
      else Inl (Some (Error (''unknown workflow type: '' @ workflowType)), container))"

text \<open>
  \<^verbatim>\<open>updateHealthStatus\<close>: read the persisted state (the default \<open>{Starting, 0}\<close> when
  absent), read the creation time, run the switch, then write the state back and append
  the result to the log. The value is the error returned (\<open>None\<close> for \<^verbatim>\<open>nil\<close>) and the
  container as the call leaves it.
\<close>

definition updateHealthStatus ::
  "env \<Rightarrow> container \<Rightarrow> Healthcheck \<Rightarrow> HealthcheckResult \<Rightarrow> string \<Rightarrow> error option \<times> container" where
  "updateHealthStatus env container hcConfig hcResult workflowType =
     (case readHealthStateFromLabels env container of
        Inl err \<Rightarrow> (Some (Wrapped ''failed to read health state from labels: '' err), container)
      | Inr stored \<Rightarrow>
          (let currentHealth =
                 (case stored of
                    None \<Rightarrow> \<lparr>Status = Starting, FailingStreak = 0\<rparr>
                  | Some health \<Rightarrow> health)
           in case container_Info env container of
                Inl err \<Rightarrow> (Some (Wrapped ''failed to get container info: '' err), container)
              | Inr containerCreated \<Rightarrow>
                  (let startPeriod = StartPeriod hcConfig;
                       stillInStartPeriod = (Time_Sub (Start hcResult) containerCreated < startPeriod)
                   in case updateHealthStatus_switch env container currentHealth stillInStartPeriod
                             hcConfig hcResult workflowType of
                        Inl returned \<Rightarrow> returned
                      | Inr (currentHealth', container') \<Rightarrow>
                          (case writeHealthStateToLabels env container' currentHealth' of
                             (Some err, container'') \<Rightarrow>
                               (Some (Wrapped ''failed to write health state to labels: '' err), container'')
                           | (None, container'') \<Rightarrow>
                               (case writeHealthLog env container'' hcResult of
                                  (Some err, container''') \<Rightarrow>
                                    (Some (Wrapped ''failed to write health log: '' err), container''')
                                | (None, container''') \<Rightarrow> (None, container'''))))))"

text \<open>
  The health state a reader finds on a container: the persisted one, or the default
  \<open>{Starting, 0}\<close> that \<^verbatim>\<open>updateHealthStatus\<close> substitutes when none is persisted.
\<close>

definition currentHealthOf :: "container \<Rightarrow> HealthState" where
  "currentHealthOf container =
     (case HealthStateLabel container of
        None \<Rightarrow> \<lparr>Status = Starting, FailingStreak = 0\<rparr>
      | Some health \<Rightarrow> health)"

text \<open>The derived boolean of \<^verbatim>\<open>updateHealthStatus\<close> for a result on a container.\<close>

definition stillInStartPeriod :: "container \<Rightarrow> Healthcheck \<Rightarrow> HealthcheckResult \<Rightarrow> bool" where
  "stillInStartPeriod container hcConfig hcResult =
     (Time_Sub (Start hcResult) (CreatedAt container) < StartPeriod hcConfig)"

text \<open>
  The scheduler invokes the engine once per tick. \<open>ticks\<close> runs \<^verbatim>\<open>updateHealthStatus\<close>
  under one workflow over a sequence of ticks, each with its own environment, configuration
  and probe result, carrying the container from one tick to the next whatever the tick
  returned.
\<close>

fun ticks :: "string \<Rightarrow> (env \<times> Healthcheck \<times> HealthcheckResult) list \<Rightarrow> container \<Rightarrow> container" where
  "ticks workflowType [] container = container"
| "ticks workflowType ((env, hcConfig, hcResult) # rest) container =
     ticks workflowType rest (snd (updateHealthStatus env container hcConfig hcResult workflowType))"

section \<open>The probe executor\<close>

text \<open>
  \<^verbatim>\<open>strings.TrimSpace\<close> of the Go library on the bytes of a string: it removes the
  leading and the trailing white space as Unicode defines it, that is the six ASCII
  characters, U+0085 and U+00A0 (two bytes in UTF-8), and U+1680, U+2000 to U+200A,
  U+2028, U+2029, U+202F, U+205F and U+3000 (three bytes).
\<close>

definition asciiSpace :: "char \<Rightarrow> bool" where
  "asciiSpace a = (a \<in> set [CHR 0x09, CHR 0x0A, CHR 0x0B, CHR 0x0C, CHR 0x0D, CHR 0x20])"

definition twoByteSpace :: "char \<Rightarrow> char \<Rightarrow> bool" where
  "twoByteSpace a b = (a = CHR 0xC2 \<and> (b = CHR 0x85 \<or> b = CHR 0xA0))"

definition threeByteSpace :: "char \<Rightarrow> char \<Rightarrow> char \<Rightarrow> bool" where
  "threeByteSpace a b c =
     ((a = CHR 0xE1 \<and> b = CHR 0x9A \<and> c = CHR 0x80)
    \<or> (a = CHR 0xE2 \<and> b = CHR 0x80 \<and>
         ((0x80 \<le> (of_char c :: nat) \<and> (of_char c :: nat) \<le> 0x8A)
          \<or> c = CHR 0xA8 \<or> c = CHR 0xA9 \<or> c = CHR 0xAF))
    \<or> (a = CHR 0xE2 \<and> b = CHR 0x81 \<and> c = CHR 0x9F)
    \<or> (a = CHR 0xE3 \<and> b = CHR 0x80 \<and> c = CHR 0x80))"

fun trimLeading ::
  "(char \<Rightarrow> char \<Rightarrow> bool) \<Rightarrow> (char \<Rightarrow> char \<Rightarrow> char \<Rightarrow> bool) \<Rightarrow> string \<Rightarrow> string" where
  "trimLeading two three (a # b # c # s) =
     (if asciiSpace a then trimLeading two three (b # c # s)
      else if two a b then trimLeading two three (c # s)
      else if three a b c then trimLeading two three s
      else a # b # c # s)"
| "trimLeading two three [a, b] =
     (if asciiSpace a then trimLeading two three [b]
      else if two a b then []
      else [a, b])"
| "trimLeading two three [a] = (if asciiSpace a then [] else [a])"
| "trimLeading two three [] = []"

definition TrimSpace :: "string \<Rightarrow> string" where
  "TrimSpace s =
     rev (trimLeading (\<lambda>a b. twoByteSpace b a) (\<lambda>a b c. threeByteSpace c b a)
            (rev (trimLeading twoByteSpace threeByteSpace s)))"

text \<open>\<^verbatim>\<open>strings.Join\<close> of the Go library.\<close>

fun Join :: "string list \<Rightarrow> string \<Rightarrow> string" where
  "Join [] sep = []"
| "Join [x] sep = x"
| "Join (x # y # xs) sep = x @ sep @ Join (y # xs) sep"

text \<open>
  Modelled from the spec: the tags of \<^verbatim>\<open>Healthcheck.Test\<close> are constants declared in a
  file that is not among the source files. The spec names them None, Exec-argv and
  Shell-string; the values are those of the container image format (\<^verbatim>\<open>"NONE"\<close> is also
  written out in \<^verbatim>\<open>shouldSkipHealthCheckSystemd\<close>), and \<^verbatim>\<open>TestNone\<close> is the empty string.
\<close>

definition TestNone :: string where
  "TestNone = []"

definition CmdNone :: string where
  "CmdNone = ''NONE''"

definition Cmd :: string where
  "Cmd = ''CMD''"

definition CmdShell :: string where
  "CmdShell = ''CMD-SHELL''"

text \<open>
  \<^verbatim>\<open>prepareProcessSpec\<close>. \<open>Inr None\<close> is the pair \<^verbatim>\<open>(nil, nil)\<close>. \<^verbatim>\<open>hcCommand[0]\<close> on an
  empty \<^verbatim>\<open>Test\<close> panics.
\<close>

definition prepareProcessSpec :: "env \<Rightarrow> container \<Rightarrow> Healthcheck \<Rightarrow> error + Process option" where
  "prepareProcessSpec env container hcConfig =
     (let hcCommand = Test hcConfig in
      case hcCommand of
        [] \<Rightarrow> Inl (RuntimePanic ''runtime error: index out of range [0] with length 0'')
      | tag # rest \<Rightarrow>
          if tag = TestNone \<or> tag = CmdNone then Inr None
          else
            (case (if tag = Cmd then Inr rest
                   else if tag = CmdShell then
                     (case rest of
                        [] \<Rightarrow> Inl (Error ''no health check command specified'')
                      | second # _ \<Rightarrow>
                          if TrimSpace second = [] then Inl (Error ''no health check command specified'')
                          else Inr [''/bin/sh'', ''-c'', Join rest '' ''])
                   else Inr hcCommand) of
               Inl err \<Rightarrow> Inl err
             | Inr args \<Rightarrow>
                 (case args of
                    [] \<Rightarrow> Inl (Error ''no health check command specified'')
                  | first # _ \<Rightarrow>
                      if first = [] then Inl (Error ''no health check command specified'')
                      else
                        (case container_Spec env container of
                           Inl err \<Rightarrow> Inl (Wrapped ''failed to get container spec: '' err)
                         | Inr process \<Rightarrow>
                             Inr (Some \<lparr>Args = args, Env = Env process,
                                        User = User process, Cwd = Cwd process\<rparr>)))))"

text \<open>
  \<^verbatim>\<open>probeHealthCheck\<close>. The spec is handed to \<^verbatim>\<open>task.Exec\<close>; a failure of exec, start or
  wait is returned wrapped; otherwise the \<^verbatim>\<open>select\<close> takes the timeout or the exit status,
  whichever the environment delivers first. On the timeout the process is killed and the
  result carries \<open>-1\<close> and the timeout message; on exit it carries the exit code and the
  captured output. \<^verbatim>\<open>Start\<close> is left at the zero instant for the caller to fill in.
\<close>

definition probeHealthCheck ::
  "env \<Rightarrow> task \<Rightarrow> Healthcheck \<Rightarrow> Process \<Rightarrow> (error + HealthcheckResult) \<times> task" where
  "probeHealthCheck env task hc processSpec =
     (let task' = task\<lparr>Execs := Execs task @ [processSpec]\<rparr> in
      case exec_outcome env of
        ExecFails err \<Rightarrow> (Inl (Wrapped ''exec error: '' err), task')
      | StartFails err \<Rightarrow> (Inl (Wrapped ''start error: '' err), task')
      | WaitFails err \<Rightarrow> (Inl (Wrapped ''failed to wait for health check: '' err), task')
      | TimedOut out \<Rightarrow>
          (let msg =
                 (if 0 < length out then
                    ''Health check exceeded timeout ('' @ Duration_String env (Timeout hc) @ ''): '' @ out
                  else ''Health check exceeded timeout ('' @ Duration_String env (Timeout hc) @ '')'')
           in (Inr \<lparr>Start = 0, End = now_end env, ExitCode = - 1, Output = msg\<rparr>,
               task'\<lparr>Kills := Kills task' + 1\<rparr>))
      | Exited code out \<Rightarrow>
          (Inr \<lparr>Start = 0, End = now_end env, ExitCode = ucast code, Output = out\<rparr>, task'))"

section \<open>The entry point\<close>

text \<open>
  \<^verbatim>\<open>ExecuteHealthCheck\<close>: the error returned (\<open>None\<close> for \<^verbatim>\<open>nil\<close>), the task and the
  container as the call leaves them. On a probe error the failed result is handed to
  \<^verbatim>\<open>updateHealthStatus\<close>, whose own error is dropped (\<^verbatim>\<open>_ =\<close>). A panic of
  \<^verbatim>\<open>prepareProcessSpec\<close> unwinds through the entry point, which has no recover: it comes
  out as the \<open>RuntimePanic\<close> value, with task and container as they were.
\<close>

definition ExecuteHealthCheck ::
  "env \<Rightarrow> task \<Rightarrow> container \<Rightarrow> Healthcheck \<Rightarrow> string \<Rightarrow> error option \<times> task \<times> container" where
  "ExecuteHealthCheck env task container hc workflowType =
     (case prepareProcessSpec env container hc of
        Inl err \<Rightarrow> (Some err, task, container)
      | Inr None \<Rightarrow> (None, task, container)
      | Inr (Some processSpec) \<Rightarrow>
          (let startTime = now_start env in
           case probeHealthCheck env task hc processSpec of
             (Inl err, task') \<Rightarrow>
               (let container' =
                      snd (updateHealthStatus env container hc
                             \<lparr>Start = startTime, End = now_end env, ExitCode = - 1,
                              Output = Error_text err\<rparr> workflowType)
                in (Some (Wrapped ''health check probe failed: '' err), task', container'))
           | (Inr result, task') \<Rightarrow>
               (case updateHealthStatus env container hc (result\<lparr>Start := startTime\<rparr>) workflowType of
                  (Some err, container') \<Rightarrow>
                    (Some (Wrapped ''failed to update health status: '' err), task', container')
                | (None, container') \<Rightarrow> (None, task', container'))))"

section \<open>Sample inputs\<close>

text \<open>
  A container created at instant 0 with nothing persisted yet, an idle task, a
  configuration with a two-second timeout, a start period of half a second and three
  retries, and an
  environment in which every collaborator succeeds and the probe, started one second
  after the container was created, exits with code 1. The two sample results start at that
  same instant, after the start period; the early ones start within it.
\<close>

definition sample_container :: container where
  "sample_container =
     \<lparr>CreatedAt = 0,
      SpecProcess = \<lparr>Args = [''sleep'', ''infinity''], Env = [''PATH=/bin''],
                     User = \<lparr>UID = 0, GID = 0, Username = []\<rparr>, Cwd = ''/''\<rparr>,
      HealthStateLabel = None, HealthLog = [], StartPeriodTimer = True\<rparr>"

definition sample_task :: task where
  "sample_task = \<lparr>Execs = [], Kills = 0\<rparr>"

definition sample_config :: Healthcheck where
  "sample_config =
     \<lparr>Test = [''CMD-SHELL'', ''exit 1''], Interval = 30000000000, Timeout = 2000000000,
      StartPeriod = 500000000, StartInterval = 100000000, Retries = 3\<rparr>"

definition sample_env :: env where
  "sample_env =
     \<lparr>now_start = 1000000000, now_end = 1200000000, exec_outcome = Exited 1 ''boom'',
      labels_err = None, info_err = None, setlabels_err = None, healthlog_err = None,
      spec_err = None, timer_err = None,
      Duration_String = (\<lambda>d. if d = 2000000000 then ''2s'' else ''?''),
      MaxLogEntries = 5\<rparr>"

definition sample_failure :: HealthcheckResult where
  "sample_failure = \<lparr>Start = 1000000000, End = 1200000000, ExitCode = 1, Output = ''boom''\<rparr>"

definition sample_success :: HealthcheckResult where
  "sample_success = \<lparr>Start = 1000000000, End = 1200000000, ExitCode = 0, Output = ''ok''\<rparr>"

definition early_failure :: HealthcheckResult where
  "early_failure = \<lparr>Start = 100000000, End = 200000000, ExitCode = 1, Output = ''boom''\<rparr>"

definition early_success :: HealthcheckResult where
  "early_success = \<lparr>Start = 100000000, End = 200000000, ExitCode = 0, Output = ''ok''\<rparr>"

text \<open>
  The process spec resolved for the sample configuration, and three variations of the
  sample environment: the probe runs into the timeout with some output captured; the
  runtime fails to start the probe; and the same with a label store that rejects writes.
\<close>

definition sample_process :: Process where
  "sample_process =
     \<lparr>Args = [''/bin/sh'', ''-c'', ''exit 1''], Env = [''PATH=/bin''],
      User = \<lparr>UID = 0, GID = 0, Username = []\<rparr>, Cwd = ''/''\<rparr>"

definition timeout_env :: env where
  "timeout_env = sample_env\<lparr>exec_outcome := TimedOut ''partial''\<rparr>"

definition start_error_env :: env where
  "start_error_env = sample_env\<lparr>exec_outcome := StartFails (Error ''container not running'')\<rparr>"

definition broken_store_env :: env where
  "broken_store_env =
     sample_env\<lparr>exec_outcome := StartFails (Error ''container not running''),
                setlabels_err := Some (Error ''label store unavailable'')\<rparr>"

text \<open>
  The start failure again with the probe started a tenth of a second after creation, within
  the start period; and the sample container as three counted failures leave it.
\<close>

definition early_start_error_env :: env where
  "early_start_error_env =
     sample_env\<lparr>now_start := 100000000, now_end := 200000000,
                exec_outcome := StartFails (Error ''container not running'')\<rparr>"

definition unhealthy_container :: container where
  "unhealthy_container =
     sample_container\<lparr>HealthStateLabel := Some \<lparr>Status = Unhealthy, FailingStreak = 3\<rparr>\<rparr>"

section \<open>Vocabulary of the properties\<close>

text \<open>
  The invariant the data model states for a health state: the failing streak is zero
  whenever the status is Healthy.
\<close>

definition healthInvariant :: "HealthState \<Rightarrow> bool" where
  "healthInvariant health = (Status health = Healthy \<longrightarrow> FailingStreak health = 0)"

text \<open>
  The state repository works in an environment when the persisted state and the container
  info can be read and the state can be written.
\<close>

definition stateRepositoryWorks :: "env \<Rightarrow> bool" where
  "stateRepositoryWorks env =
     (labels_err env = None \<and> info_err env = None \<and> setlabels_err env = None)"

section \<open>Unfolding rules\<close>

lemmas update_defs = updateHealthStatus_def updateHealthStatus_switch_def readHealthStateFromLabels_def
  container_Info_def writeHealthStateToLabels_def writeHealthLog_def RemoveStartPeriodTimer_def
  Time_Sub_def minDuration_def maxDuration_def keep_last_def Let_def

lemmas probe_defs = prepareProcessSpec_def probeHealthCheck_def ExecuteHealthCheck_def
  container_Spec_def TestNone_def CmdNone_def Cmd_def CmdShell_def TrimSpace_def asciiSpace_def
  twoByteSpace_def threeByteSpace_def

lemmas sample_defs = sample_env_def sample_container_def sample_config_def sample_task_def
  sample_failure_def

lemmas property_defs = currentHealthOf_def stillInStartPeriod_def stateRepositoryWorks_def

section \<open>The switch and the write-back\<close>

lemma RemoveStartPeriodTimer_frame:
  "HealthStateLabel (snd (RemoveStartPeriodTimer env container)) = HealthStateLabel container"
  "CreatedAt (snd (RemoveStartPeriodTimer env container)) = CreatedAt container"
  "HealthLog (snd (RemoveStartPeriodTimer env container)) = HealthLog container"
  by (simp_all add: RemoveStartPeriodTimer_def split: option.split)

text \<open>The switch with the record updates carried out.\<close>

lemma switch_cases:
  "updateHealthStatus_switch env container h still hcConfig hcResult workflowType =
     (if workflowType = ''start-period'' then
        (if Status h = Healthy \<or> \<not> still then Inl (None, snd (RemoveStartPeriodTimer env container))
         else if ExitCode hcResult = 0 then
           Inr (\<lparr>Status = Healthy, FailingStreak = 0\<rparr>, snd (RemoveStartPeriodTimer env container))
         else Inr (h, container))
      else if workflowType = ''health-interval'' then
        (if ExitCode hcResult = 0 then Inr (\<lparr>Status = Healthy, FailingStreak = 0\<rparr>, container)
         else if \<not> still then
           Inr (\<lparr>Status = (if sint (Retries hcConfig) \<le> sint (FailingStreak h + 1)
                            then Unhealthy else Status h),
                 FailingStreak = FailingStreak h + 1\<rparr>, container)
         else Inr (h, container))
      else Inl (Some (Error (''unknown workflow type: '' @ workflowType)), container))"
  by (cases h) (simp add: updateHealthStatus_switch_def Let_def)

text \<open>The switch writes neither the persisted state nor the creation time.\<close>

lemma switch_keeps_label:
  "updateHealthStatus_switch env container h still hcConfig hcResult workflowType = Inl (e, c') \<Longrightarrow>
     HealthStateLabel c' = HealthStateLabel container \<and> CreatedAt c' = CreatedAt container"
  "updateHealthStatus_switch env container h still hcConfig hcResult workflowType = Inr (h', c') \<Longrightarrow>
     HealthStateLabel c' = HealthStateLabel container \<and> CreatedAt c' = CreatedAt container"
  by (auto simp add: updateHealthStatus_switch_def Let_def RemoveStartPeriodTimer_frame
      split: if_splits)

text \<open>
  The health state found after \<^verbatim>\<open>updateHealthStatus\<close>: what the switch computed, when the
  switch fell through and the repository works; the state as it was, in every other case.
\<close>

lemma currentHealthOf_update:
  "currentHealthOf (snd (updateHealthStatus env container hcConfig hcResult workflowType)) =
     (if stateRepositoryWorks env then
        (case updateHealthStatus_switch env container (currentHealthOf container)
                (stillInStartPeriod container hcConfig hcResult) hcConfig hcResult workflowType of
           Inl returned \<Rightarrow> currentHealthOf container
         | Inr (h', c') \<Rightarrow> h')
      else currentHealthOf container)"
proof (cases "updateHealthStatus_switch env container (currentHealthOf container)
                (stillInStartPeriod container hcConfig hcResult) hcConfig hcResult workflowType")
  case (Inl returned)
  obtain e c' where "returned = (e, c')" by (cases returned)
  with Inl switch_keeps_label(1) [of env container "currentHealthOf container"
      "stillInStartPeriod container hcConfig hcResult" hcConfig hcResult workflowType e c']
  show ?thesis
    by (simp add: updateHealthStatus_def readHealthStateFromLabels_def container_Info_def
        stateRepositoryWorks_def currentHealthOf_def [symmetric] stillInStartPeriod_def [symmetric]
        split: option.split) (simp add: currentHealthOf_def)
next
  case (Inr fallthrough)
  obtain h' c' where "fallthrough = (h', c')" by (cases fallthrough)
  with Inr switch_keeps_label(2) [of env container "currentHealthOf container"
      "stillInStartPeriod container hcConfig hcResult" hcConfig hcResult workflowType h' c']
  show ?thesis
    by (simp add: updateHealthStatus_def readHealthStateFromLabels_def container_Info_def
        writeHealthStateToLabels_def writeHealthLog_def
        stateRepositoryWorks_def currentHealthOf_def [symmetric] stillInStartPeriod_def [symmetric]
        split: option.split) (simp add: currentHealthOf_def)
qed

lemma updateHealthStatus_CreatedAt:
  "CreatedAt (snd (updateHealthStatus env container hcConfig hcResult workflowType)) = CreatedAt container"
proof (cases "updateHealthStatus_switch env container
                (case HealthStateLabel container of
                   None \<Rightarrow> \<lparr>Status = Starting, FailingStreak = 0\<rparr>
                 | Some health \<Rightarrow> health)
                (Time_Sub (Start hcResult) (CreatedAt container) < StartPeriod hcConfig)
                hcConfig hcResult workflowType")
  case (Inl returned)
  obtain e c' where "returned = (e, c')" by (cases returned)
  with Inl switch_keeps_label(1) show ?thesis
    by (simp add: updateHealthStatus_def readHealthStateFromLabels_def container_Info_def
        split: option.split)
next
  case (Inr fallthrough)
  obtain h' c' where "fallthrough = (h', c')" by (cases fallthrough)
  with Inr switch_keeps_label(2) show ?thesis
    by (simp add: updateHealthStatus_def readHealthStateFromLabels_def container_Info_def
        writeHealthStateToLabels_def writeHealthLog_def split: option.split)
qed

lemma stillInStartPeriod_after_update:
  "stillInStartPeriod (snd (updateHealthStatus env container hcConfig hcResult workflowType)) hc r
     = stillInStartPeriod container hc r"
  by (simp add: stillInStartPeriod_def updateHealthStatus_CreatedAt)

text \<open>A failure counted by the health-interval workflow.\<close>

lemma health_interval_counted_failure:
  assumes "stateRepositoryWorks env" and "ExitCode hcResult \<noteq> 0"
    and "\<not> stillInStartPeriod container hcConfig hcResult"
  shows "currentHealthOf (snd (updateHealthStatus env container hcConfig hcResult ''health-interval'')) =
     \<lparr>Status = (if sint (Retries hcConfig) \<le> sint (FailingStreak (currentHealthOf container) + 1)
                 then Unhealthy else Status (currentHealthOf container)),
      FailingStreak = FailingStreak (currentHealthOf container) + 1\<rparr>"
  using assms by (simp add: currentHealthOf_update switch_cases)

text \<open>
  The early return of the start-period workflow writes neither the state nor the log,
  whatever the environment.
\<close>

lemma start_period_early_return_writes_nothing:
  assumes "Status (currentHealthOf container) = Healthy \<or> \<not> stillInStartPeriod container hcConfig hcResult"
  shows "HealthStateLabel (snd (updateHealthStatus env container hcConfig hcResult ''start-period''))
           = HealthStateLabel container
       \<and> HealthLog (snd (updateHealthStatus env container hcConfig hcResult ''start-period''))
           = HealthLog container"
proof (cases "labels_err env = None \<and> info_err env = None")
  case False
  show ?thesis
  proof (cases "labels_err env")
    case (Some err)
    then show ?thesis
      by (simp add: updateHealthStatus_def readHealthStateFromLabels_def)
  next
    case None
    with False obtain err where "info_err env = Some err"
      by auto
    with None show ?thesis
      by (simp add: updateHealthStatus_def readHealthStateFromLabels_def container_Info_def)
  qed
next
  case True
  have "updateHealthStatus_switch env container (currentHealthOf container)
          (stillInStartPeriod container hcConfig hcResult) hcConfig hcResult ''start-period''
        = Inl (None, snd (RemoveStartPeriodTimer env container))"
    using assms by (auto simp add: switch_cases)
  with True show ?thesis
    by (simp add: updateHealthStatus_def readHealthStateFromLabels_def container_Info_def
        currentHealthOf_def [symmetric] stillInStartPeriod_def [symmetric]
        RemoveStartPeriodTimer_frame)
qed

text \<open>
  With a working repository and log, a failed result that reaches the write-back is
  appended to the log and the state the switch computed is written.
\<close>

lemma failure_is_recorded:
  assumes "stateRepositoryWorks env" and "healthlog_err env = None" and "ExitCode hcResult \<noteq> 0"
    and "workflowType = ''health-interval'' \<or>
         (workflowType = ''start-period'' \<and> Status (currentHealthOf container) \<noteq> Healthy
            \<and> stillInStartPeriod container hcConfig hcResult)"
  shows "HealthLog (snd (updateHealthStatus env container hcConfig hcResult workflowType))
           = keep_last (MaxLogEntries env) (HealthLog container @ [hcResult])
       \<and> HealthStateLabel (snd (updateHealthStatus env container hcConfig hcResult workflowType))
           = Some (if workflowType = ''health-interval''
                      \<and> \<not> stillInStartPeriod container hcConfig hcResult
                   then \<lparr>Status = (if sint (Retries hcConfig)
                                        \<le> sint (FailingStreak (currentHealthOf container) + 1)
                                     then Unhealthy else Status (currentHealthOf container)),
                         FailingStreak = FailingStreak (currentHealthOf container) + 1\<rparr>
                   else currentHealthOf container)"
proof -
  let ?new = "if workflowType = ''health-interval'' \<and> \<not> stillInStartPeriod container hcConfig hcResult
              then \<lparr>Status = (if sint (Retries hcConfig)
                                   \<le> sint (FailingStreak (currentHealthOf container) + 1)
                                then Unhealthy else Status (currentHealthOf container)),
                    FailingStreak = FailingStreak (currentHealthOf container) + 1\<rparr>
              else currentHealthOf container"
  have switch: "updateHealthStatus_switch env container (currentHealthOf container)
          (stillInStartPeriod container hcConfig hcResult) hcConfig hcResult workflowType
        = Inr (?new, container)"
    using assms(3,4) by (auto simp add: switch_cases)
  have reads: "labels_err env = None" "info_err env = None" "setlabels_err env = None"
    using assms(1) by (simp_all add: stateRepositoryWorks_def)
  show ?thesis
    using switch reads assms(2)
    by (simp add: updateHealthStatus_def readHealthStateFromLabels_def container_Info_def
        writeHealthStateToLabels_def writeHealthLog_def
        currentHealthOf_def [symmetric] stillInStartPeriod_def [symmetric])
qed


text \<open>With a working repository and log, a known workflow returns no error.\<close>

lemma updateHealthStatus_succeeds:
  assumes "stateRepositoryWorks env" and "healthlog_err env = None"
    and "workflowType = ''health-interval'' \<or> workflowType = ''start-period''"
  shows "fst (updateHealthStatus env container hcConfig hcResult workflowType) = None"
  using assms
  by (auto simp add: updateHealthStatus_def readHealthStateFromLabels_def container_Info_def
      writeHealthStateToLabels_def writeHealthLog_def stateRepositoryWorks_def switch_cases Let_def)

text \<open>
  After one tick of the start-period workflow the status is Unhealthy exactly when it was
  Unhealthy before and the tick was not a success within the start period that the
  repository could write.
\<close>

lemma start_period_step_unhealthy:
  "Status (currentHealthOf (snd (updateHealthStatus env container hcConfig hcResult ''start-period'')))
      = Unhealthy \<longleftrightarrow>
      Status (currentHealthOf container) = Unhealthy
      \<and> \<not> (stateRepositoryWorks env \<and> ExitCode hcResult = 0
             \<and> stillInStartPeriod container hcConfig hcResult)"
proof (cases "stateRepositoryWorks env")
  case False
  then show ?thesis by (simp add: currentHealthOf_update)
next
  case True
  show ?thesis
  proof (cases "Status (currentHealthOf container) = Healthy \<or> \<not> stillInStartPeriod container hcConfig hcResult")
    case True
    with \<open>stateRepositoryWorks env\<close> show ?thesis
      by (auto simp add: currentHealthOf_update switch_cases)
  next
    case False
    with \<open>stateRepositoryWorks env\<close> show ?thesis
      by (cases "ExitCode hcResult = 0") (simp_all add: currentHealthOf_update switch_cases)
  qed
qed

section \<open>The probe and the entry point\<close>

lemma probeHealthCheck_TimedOut:
  "exec_outcome env = TimedOut out \<Longrightarrow>
   probeHealthCheck env task hc processSpec =
     (Inr \<lparr>Start = 0, End = now_end env, ExitCode = - 1,
           Output = ''Health check exceeded timeout ('' @ Duration_String env (Timeout hc) @ '')''
                      @ (if out = [] then [] else '': '' @ out)\<rparr>,
      task\<lparr>Execs := Execs task @ [processSpec], Kills := Kills task + 1\<rparr>)"
  by (simp add: probeHealthCheck_def Let_def)

lemma ExecuteHealthCheck_probe_error:
  assumes "prepareProcessSpec env container hc = Inr (Some processSpec)"
    and "fst (probeHealthCheck env task hc processSpec) = Inl err"
  shows "ExecuteHealthCheck env task container hc workflowType =
           (Some (Wrapped ''health check probe failed: '' err),
            snd (probeHealthCheck env task hc processSpec),
            snd (updateHealthStatus env container hc
                   \<lparr>Start = now_start env, End = now_end env, ExitCode = - 1,
                    Output = Error_text err\<rparr> workflowType))"
  using assms
  by (cases "probeHealthCheck env task hc processSpec") (simp add: ExecuteHealthCheck_def)

text \<open>Neither the command resolution nor the probe looks at the state repository.\<close>

lemma prepareProcessSpec_ignores_repository:
  "prepareProcessSpec (env\<lparr>labels_err := a, info_err := b, setlabels_err := c, healthlog_err := d\<rparr>)
     container hc = prepareProcessSpec env container hc"
proof -
  have "container_Spec (env\<lparr>labels_err := a, info_err := b, setlabels_err := c, healthlog_err := d\<rparr>)
          container = container_Spec env container"
    by (simp add: container_Spec_def)
  then show ?thesis
    by (simp only: prepareProcessSpec_def)
qed

lemma probeHealthCheck_ignores_repository:
  "probeHealthCheck (env\<lparr>labels_err := a, info_err := b, setlabels_err := c, healthlog_err := d\<rparr>)
     task hc processSpec = probeHealthCheck env task hc processSpec"
  by (simp add: probeHealthCheck_def Let_def split: exec_outcome.split)

section \<open>A successful probe\<close>

text \<open>
  C1, as amended. For every probe result with \<^verbatim>\<open>ExitCode == 0\<close> and from any prior health
  state, \<^verbatim>\<open>updateHealthStatus\<close> leaves the state \<open>{Healthy, 0}\<close> exactly when the state
  repository works and either the workflow is health-interval, or the workflow is
  start-period, the prior status is not Healthy and the probe started within the start
  period. In every other case, among them the start-period workflow on a container that is
  already Healthy or whose start period has expired, the state is left as it was.
\<close>

theorem success_yields_healthy_unless_start_period_returns_early:
  assumes "ExitCode hcResult = 0"
  shows "currentHealthOf (snd (updateHealthStatus env container hcConfig hcResult workflowType)) =
     (if stateRepositoryWorks env \<and>
         (workflowType = ''health-interval'' \<or>
          (workflowType = ''start-period'' \<and> Status (currentHealthOf container) \<noteq> Healthy
             \<and> stillInStartPeriod container hcConfig hcResult))
      then \<lparr>Status = Healthy, FailingStreak = 0\<rparr>
      else currentHealthOf container)"
  using assms by (simp add: currentHealthOf_update switch_cases)

text \<open>
  The amended C1 on the samples: a success under health-interval, and a success under
  start-period within the start period, both leave \<open>{Healthy, 0}\<close>.
\<close>

theorem success_yields_healthy_witness:
  "ExitCode sample_success = 0 \<and> ExitCode early_success = 0
   \<and> currentHealthOf (snd (updateHealthStatus sample_env sample_container sample_config
        sample_success ''health-interval'')) = \<lparr>Status = Healthy, FailingStreak = 0\<rparr>
   \<and> currentHealthOf (snd (updateHealthStatus sample_env sample_container sample_config
        early_success ''start-period'')) = \<lparr>Status = Healthy, FailingStreak = 0\<rparr>"
proof -
  have late: "ExitCode sample_success = 0"
    by (simp add: sample_success_def)
  have early: "ExitCode early_success = 0"
    by (simp add: early_success_def)
  show ?thesis
    using success_yields_healthy_unless_start_period_returns_early
            [OF late, where env = sample_env and container = sample_container
               and hcConfig = sample_config and workflowType = "''health-interval''"]
          success_yields_healthy_unless_start_period_returns_early
            [OF early, where env = sample_env and container = sample_container
               and hcConfig = sample_config and workflowType = "''start-period''"]
          late early
    by (simp add: sample_defs sample_success_def early_success_def property_defs
        Time_Sub_def minDuration_def maxDuration_def)
qed

text \<open>
  C1 as stated fails: under the start-period workflow, a success that starts one second
  after creation, past the start period of half a second, returns early and leaves the
  default state \<open>{Starting, 0}\<close>.
\<close>

theorem success_after_start_period_counterexample:
  "ExitCode sample_success = 0
   \<and> \<not> (Status (currentHealthOf (snd (updateHealthStatus sample_env sample_container sample_config
              sample_success ''start-period''))) = Healthy
        \<and> FailingStreak (currentHealthOf (snd (updateHealthStatus sample_env sample_container
              sample_config sample_success ''start-period''))) = 0)"
  by (simp add: update_defs sample_defs sample_success_def property_defs)

section \<open>The invariant of the health state\<close>

text \<open>
  C2, as amended. The invariant \<^verbatim>\<open>FailingStreak == 0\<close> whenever \<^verbatim>\<open>Status == Healthy\<close> is
  preserved by every step of the state machine except a counted failure on a Healthy
  container that has retries left: for every input state satisfying it, every environment,
  config and result, the output state satisfies it under the start-period workflow, and
  under the health-interval workflow when the exit code is 0, or the probe started within
  the start period, or the prior status is not Healthy, or \<^verbatim>\<open>Retries <= 1\<close>. In the
  remaining case (health-interval, non-zero exit code, start period over, status Healthy,
  \<^verbatim>\<open>Retries > 1\<close>) a working repository is left with \<open>{Healthy, 1}\<close>.
\<close>

theorem invariant_preserved_except_counted_failure_while_healthy:
  assumes "healthInvariant (currentHealthOf container)"
  shows "((workflowType = ''health-interval'' \<and> ExitCode hcResult \<noteq> 0
            \<and> \<not> stillInStartPeriod container hcConfig hcResult
            \<and> Status (currentHealthOf container) = Healthy \<longrightarrow> sint (Retries hcConfig) \<le> 1)
          \<longrightarrow> healthInvariant (currentHealthOf
                 (snd (updateHealthStatus env container hcConfig hcResult workflowType))))
       \<and> (workflowType = ''health-interval'' \<and> ExitCode hcResult \<noteq> 0
            \<and> \<not> stillInStartPeriod container hcConfig hcResult
            \<and> Status (currentHealthOf container) = Healthy \<and> 1 < sint (Retries hcConfig)
            \<and> stateRepositoryWorks env
          \<longrightarrow> currentHealthOf (snd (updateHealthStatus env container hcConfig hcResult workflowType))
                = \<lparr>Status = Healthy, FailingStreak = 1\<rparr>)"
  using assms by (auto simp add: currentHealthOf_update switch_cases healthInvariant_def)

text \<open>
  The amended C2 on the samples: a counted failure on the fresh container keeps the
  invariant; the same failure on a Healthy container with three retries leaves
  \<open>{Healthy, 1}\<close>.
\<close>

theorem invariant_preserved_witness:
  "healthInvariant (currentHealthOf sample_container)
   \<and> healthInvariant (currentHealthOf (snd (updateHealthStatus sample_env sample_container
        sample_config sample_failure ''health-interval'')))
   \<and> healthInvariant (currentHealthOf
        (sample_container\<lparr>HealthStateLabel := Some \<lparr>Status = Healthy, FailingStreak = 0\<rparr>\<rparr>))
   \<and> currentHealthOf (snd (updateHealthStatus sample_env
        (sample_container\<lparr>HealthStateLabel := Some \<lparr>Status = Healthy, FailingStreak = 0\<rparr>\<rparr>)
        sample_config sample_failure ''health-interval'')) = \<lparr>Status = Healthy, FailingStreak = 1\<rparr>"
proof -
  have fresh: "healthInvariant (currentHealthOf sample_container)"
    by (simp add: sample_defs property_defs healthInvariant_def)
  have healthy: "healthInvariant (currentHealthOf
        (sample_container\<lparr>HealthStateLabel := Some \<lparr>Status = Healthy, FailingStreak = 0\<rparr>\<rparr>))"
    by (simp add: property_defs healthInvariant_def)
  show ?thesis
    using invariant_preserved_except_counted_failure_while_healthy
            [OF fresh, where env = sample_env and hcConfig = sample_config
               and hcResult = sample_failure and workflowType = "''health-interval''"]
          invariant_preserved_except_counted_failure_while_healthy
            [OF healthy, where env = sample_env and hcConfig = sample_config
               and hcResult = sample_failure and workflowType = "''health-interval''"]
          fresh healthy
    by (simp add: sample_defs property_defs healthInvariant_def
        Time_Sub_def minDuration_def maxDuration_def)
qed

text \<open>
  C2 as stated fails: one success makes the fresh container \<open>{Healthy, 0}\<close>, which
  satisfies the invariant; the next failure, counted with three retries configured, leaves
  it Healthy with a failing streak of 1.
\<close>

theorem failure_while_healthy_counterexample:
  "healthInvariant (currentHealthOf
     (ticks ''health-interval'' [(sample_env, sample_config, sample_success)] sample_container))
   \<and> \<not> healthInvariant (currentHealthOf
     (snd (updateHealthStatus sample_env
        (ticks ''health-interval'' [(sample_env, sample_config, sample_success)] sample_container)
        sample_config sample_failure ''health-interval'')))"
  by (simp add: update_defs sample_defs sample_success_def property_defs healthInvariant_def)

section \<open>Three consecutive failures\<close>

text \<open>
  C3. Under the health-interval workflow with three retries configured, starting from the
  default state \<open>{Starting, 0}\<close>, three consecutive failing results outside the start
  period leave the states \<open>{Starting, 1}\<close>, \<open>{Starting, 2}\<close> and \<open>{Unhealthy, 3}\<close>: the
  status is Starting before and after the first two failures and flips to Unhealthy
  exactly on the third, where the failing streak is exactly 3. (The state repository works
  at each tick.)
\<close>

theorem three_failures_flip_to_unhealthy_on_third:
  assumes start: "currentHealthOf container = \<lparr>Status = Starting, FailingStreak = 0\<rparr>"
    and retries: "Retries hcConfig = 3"
    and repo: "stateRepositoryWorks env1" "stateRepositoryWorks env2" "stateRepositoryWorks env3"
    and failing: "ExitCode r1 \<noteq> 0" "ExitCode r2 \<noteq> 0" "ExitCode r3 \<noteq> 0"
    and late: "\<not> stillInStartPeriod container hcConfig r1" "\<not> stillInStartPeriod container hcConfig r2"
      "\<not> stillInStartPeriod container hcConfig r3"
  shows "currentHealthOf (ticks ''health-interval'' [(env1, hcConfig, r1)] container)
           = \<lparr>Status = Starting, FailingStreak = 1\<rparr>
       \<and> currentHealthOf (ticks ''health-interval'' [(env1, hcConfig, r1), (env2, hcConfig, r2)] container)
           = \<lparr>Status = Starting, FailingStreak = 2\<rparr>
       \<and> currentHealthOf (ticks ''health-interval''
            [(env1, hcConfig, r1), (env2, hcConfig, r2), (env3, hcConfig, r3)] container)
           = \<lparr>Status = Unhealthy, FailingStreak = 3\<rparr>"
proof -
  let ?c1 = "snd (updateHealthStatus env1 container hcConfig r1 ''health-interval'')"
  let ?c2 = "snd (updateHealthStatus env2 ?c1 hcConfig r2 ''health-interval'')"
  let ?c3 = "snd (updateHealthStatus env3 ?c2 hcConfig r3 ''health-interval'')"
  have h1: "currentHealthOf ?c1 = \<lparr>Status = Starting, FailingStreak = 1\<rparr>"
    using health_interval_counted_failure [OF repo(1) failing(1) late(1)]
    by (simp add: start retries)
  have late2: "\<not> stillInStartPeriod ?c1 hcConfig r2"
    using late(2) by (simp add: stillInStartPeriod_after_update)
  have h2: "currentHealthOf ?c2 = \<lparr>Status = Starting, FailingStreak = 2\<rparr>"
    using health_interval_counted_failure [OF repo(2) failing(2) late2]
    by (simp add: h1 retries)
  have late3: "\<not> stillInStartPeriod ?c2 hcConfig r3"
    using late(3) by (simp add: stillInStartPeriod_after_update)
  have h3: "currentHealthOf ?c3 = \<lparr>Status = Unhealthy, FailingStreak = 3\<rparr>"
    using health_interval_counted_failure [OF repo(3) failing(3) late3]
    by (simp add: h2 retries)
  show ?thesis using h1 h2 h3 by simp
qed

text \<open>C3 on the samples: three times the sample failure on the fresh container.\<close>

theorem three_failures_witness:
  "currentHealthOf sample_container = \<lparr>Status = Starting, FailingStreak = 0\<rparr>
   \<and> Retries sample_config = 3 \<and> stateRepositoryWorks sample_env \<and> ExitCode sample_failure \<noteq> 0
   \<and> \<not> stillInStartPeriod sample_container sample_config sample_failure
   \<and> currentHealthOf (ticks ''health-interval'' [(sample_env, sample_config, sample_failure)] sample_container)
       = \<lparr>Status = Starting, FailingStreak = 1\<rparr>
   \<and> currentHealthOf (ticks ''health-interval''
        [(sample_env, sample_config, sample_failure), (sample_env, sample_config, sample_failure)]
        sample_container) = \<lparr>Status = Starting, FailingStreak = 2\<rparr>
   \<and> currentHealthOf (ticks ''health-interval''
        [(sample_env, sample_config, sample_failure), (sample_env, sample_config, sample_failure),
         (sample_env, sample_config, sample_failure)]
        sample_container) = \<lparr>Status = Unhealthy, FailingStreak = 3\<rparr>"
proof -
  have start: "currentHealthOf sample_container = \<lparr>Status = Starting, FailingStreak = 0\<rparr>"
    by (simp add: sample_defs property_defs)
  have retries: "Retries sample_config = 3"
    by (simp add: sample_defs)
  have repo: "stateRepositoryWorks sample_env"
    by (simp add: sample_defs property_defs)
  have failing: "ExitCode sample_failure \<noteq> 0"
    by (simp add: sample_defs)
  have late: "\<not> stillInStartPeriod sample_container sample_config sample_failure"
    by (simp add: sample_defs property_defs Time_Sub_def minDuration_def maxDuration_def)
  show ?thesis
    using three_failures_flip_to_unhealthy_on_third
            [OF start retries repo repo repo failing failing failing late late late]
          start retries repo failing late
    by simp
qed

section \<open>The start-period workflow and the Unhealthy status\<close>

text \<open>
  C4, as amended. Under the start-period workflow, for every sequence of ticks (any
  environments, configs, exit codes and timings) applied from any state, the resulting
  status is Unhealthy if and only if the status was already Unhealthy before the sequence
  and no tick of the sequence was a success started within the start period in an
  environment where the state repository works. In particular the start-period workflow
  never turns a status that is not Unhealthy into Unhealthy.
\<close>

theorem start_period_result_unhealthy_iff:
  "Status (currentHealthOf (ticks ''start-period'' steps container)) = Unhealthy \<longleftrightarrow>
     Status (currentHealthOf container) = Unhealthy
     \<and> (\<forall>(env, hcConfig, hcResult) \<in> set steps.
           \<not> (stateRepositoryWorks env \<and> ExitCode hcResult = 0
                \<and> stillInStartPeriod container hcConfig hcResult))"
proof (induction steps arbitrary: container)
  case Nil
  show ?case by simp
next
  case (Cons step steps)
  obtain env hcConfig hcResult where step: "step = (env, hcConfig, hcResult)"
    by (cases step)
  let ?next = "snd (updateHealthStatus env container hcConfig hcResult ''start-period'')"
  let ?heals = "\<lambda>c (e, h, r). stateRepositoryWorks e \<and> ExitCode r = 0 \<and> stillInStartPeriod c h r"
  have same: "?heals ?next s = ?heals container s" for s
    by (cases s) (simp add: stillInStartPeriod_after_update)
  have "Status (currentHealthOf (ticks ''start-period'' (step # steps) container)) = Unhealthy
          \<longleftrightarrow> Status (currentHealthOf ?next) = Unhealthy \<and> (\<forall>s \<in> set steps. \<not> ?heals ?next s)"
    using Cons.IH [of ?next] by (simp add: step case_prod_unfold)
  also have "\<dots> \<longleftrightarrow> (Status (currentHealthOf container) = Unhealthy
                         \<and> \<not> ?heals container (env, hcConfig, hcResult))
                       \<and> (\<forall>s \<in> set steps. \<not> ?heals container s)"
    by (simp only: same start_period_step_unhealthy split_conv)
  also have "\<dots> \<longleftrightarrow> Status (currentHealthOf container) = Unhealthy
                       \<and> (\<forall>s \<in> set (step # steps). \<not> ?heals container s)"
    by (auto simp add: step)
  finally show ?case
    by (simp add: case_prod_unfold)
qed

text \<open>
  The amended C4 on the samples: two failures leave the fresh container not Unhealthy and
  the Unhealthy container Unhealthy; a success within the start period takes the Unhealthy
  container out of Unhealthy.
\<close>

theorem start_period_result_unhealthy_witness:
  "Status (currentHealthOf (ticks ''start-period''
      [(sample_env, sample_config, early_failure), (sample_env, sample_config, sample_failure)]
      sample_container)) \<noteq> Unhealthy
   \<and> Status (currentHealthOf (ticks ''start-period''
      [(sample_env, sample_config, early_failure), (sample_env, sample_config, sample_failure)]
      unhealthy_container)) = Unhealthy
   \<and> Status (currentHealthOf (ticks ''start-period''
      [(sample_env, sample_config, early_failure), (sample_env, sample_config, early_success)]
      unhealthy_container)) \<noteq> Unhealthy"
  using start_period_result_unhealthy_iff
          [where container = sample_container
             and steps = "[(sample_env, sample_config, early_failure),
                           (sample_env, sample_config, sample_failure)]"]
        start_period_result_unhealthy_iff
          [where container = unhealthy_container
             and steps = "[(sample_env, sample_config, early_failure),
                           (sample_env, sample_config, sample_failure)]"]
        start_period_result_unhealthy_iff
          [where container = unhealthy_container
             and steps = "[(sample_env, sample_config, early_failure),
                           (sample_env, sample_config, early_success)]"]
  by (simp add: sample_defs unhealthy_container_def early_failure_def early_success_def
      property_defs Time_Sub_def minDuration_def maxDuration_def)

text \<open>
  C4 as stated fails on a reachable state: three counted failures of the health-interval
  workflow make the fresh container Unhealthy, and a tick of the start-period workflow on
  that container results in the status Unhealthy.
\<close>

theorem start_period_on_unhealthy_counterexample:
  "Status (currentHealthOf (ticks ''start-period'' [(sample_env, sample_config, sample_failure)]
      (ticks ''health-interval''
         [(sample_env, sample_config, sample_failure), (sample_env, sample_config, sample_failure),
          (sample_env, sample_config, sample_failure)]
         sample_container))) = Unhealthy"
  by (simp add: update_defs sample_defs property_defs)

section \<open>The probe timeout\<close>

text \<open>
  C5. When the timeout elapses before the probe process exits, \<^verbatim>\<open>probeHealthCheck\<close>
  returns, with a nil error, a result with \<^verbatim>\<open>ExitCode == -1\<close> and the output
  \<^verbatim>\<open>Health check exceeded timeout (<duration>)\<close>, followed by a colon, a space and the
  captured output when that is not empty. \<^verbatim>\<open>ExecuteHealthCheck\<close> hands this result, with
  its start time filled in, to \<^verbatim>\<open>updateHealthStatus\<close> as it does for any other result:
  the container is left as that call leaves it, and the call's error, if any, is returned
  wrapped.
\<close>

theorem timeout_is_a_failed_result_not_an_error:
  assumes "exec_outcome env = TimedOut out"
  shows "fst (probeHealthCheck env task hc processSpec) =
           Inr \<lparr>Start = 0, End = now_end env, ExitCode = - 1,
                Output = ''Health check exceeded timeout ('' @ Duration_String env (Timeout hc) @ '')''
                           @ (if out = [] then [] else '': '' @ out)\<rparr>
       \<and> (prepareProcessSpec env container hc = Inr (Some processSpec) \<longrightarrow>
            ExecuteHealthCheck env task container hc workflowType =
              (map_option (Wrapped ''failed to update health status: '')
                 (fst (updateHealthStatus env container hc
                         \<lparr>Start = now_start env, End = now_end env, ExitCode = - 1,
                          Output = ''Health check exceeded timeout ('' @ Duration_String env (Timeout hc) @ '')''
                                     @ (if out = [] then [] else '': '' @ out)\<rparr> workflowType)),
               task\<lparr>Execs := Execs task @ [processSpec], Kills := Kills task + 1\<rparr>,
               snd (updateHealthStatus env container hc
                      \<lparr>Start = now_start env, End = now_end env, ExitCode = - 1,
                       Output = ''Health check exceeded timeout ('' @ Duration_String env (Timeout hc) @ '')''
                                  @ (if out = [] then [] else '': '' @ out)\<rparr> workflowType)))"
proof -
  let ?result = "\<lparr>Start = now_start env, End = now_end env, ExitCode = - 1,
                  Output = ''Health check exceeded timeout ('' @ Duration_String env (Timeout hc) @ '')''
                             @ (if out = [] then [] else '': '' @ out)\<rparr>"
  obtain e c' where upd: "updateHealthStatus env container hc ?result workflowType = (e, c')"
    by (cases "updateHealthStatus env container hc ?result workflowType")
  show ?thesis
    using upd by (cases e) (simp_all add: ExecuteHealthCheck_def probeHealthCheck_TimedOut [OF assms])
qed

text \<open>
  C5 on the samples: a two-second timeout with \<^verbatim>\<open>partial\<close> captured. The entry point
  succeeds, the failure is counted and the result is logged.
\<close>

theorem timeout_witness:
  "exec_outcome timeout_env = TimedOut ''partial''
   \<and> prepareProcessSpec timeout_env sample_container sample_config = Inr (Some sample_process)
   \<and> fst (probeHealthCheck timeout_env sample_task sample_config sample_process)
       = Inr \<lparr>Start = 0, End = 1200000000, ExitCode = - 1,
              Output = ''Health check exceeded timeout (2s): partial''\<rparr>
   \<and> fst (ExecuteHealthCheck timeout_env sample_task sample_container sample_config ''health-interval'')
       = None
   \<and> currentHealthOf (snd (snd (ExecuteHealthCheck timeout_env sample_task sample_container
        sample_config ''health-interval''))) = \<lparr>Status = Starting, FailingStreak = 1\<rparr>
   \<and> HealthLog (snd (snd (ExecuteHealthCheck timeout_env sample_task sample_container
        sample_config ''health-interval'')))
       = [\<lparr>Start = 1000000000, End = 1200000000, ExitCode = - 1,
           Output = ''Health check exceeded timeout (2s): partial''\<rparr>]"
proof -
  have outcome: "exec_outcome timeout_env = TimedOut ''partial''"
    by (simp add: timeout_env_def sample_defs)
  have prepare: "prepareProcessSpec timeout_env sample_container sample_config = Inr (Some sample_process)"
    by (simp add: probe_defs timeout_env_def sample_process_def sample_defs)
  show ?thesis
    using timeout_is_a_failed_result_not_an_error
            [OF outcome, where task = sample_task and hc = sample_config
               and processSpec = sample_process and container = sample_container
               and workflowType = "''health-interval''"]
          outcome prepare
    by (simp add: update_defs property_defs timeout_env_def sample_process_def sample_defs)
qed

section \<open>Infrastructure errors of the probe\<close>

text \<open>
  C6, as amended. When the probe fails with an infrastructure error (exec, start or wait),
  \<^verbatim>\<open>ExecuteHealthCheck\<close> hands a failed result with \<^verbatim>\<open>ExitCode == -1\<close> and the error text
  as output to \<^verbatim>\<open>updateHealthStatus\<close>, leaves the container as that call leaves it, and
  returns the probe's error, wrapped so that unwrapping yields the original; it never
  returns success. The failed result is recorded, that is appended to the health log with
  the state written (the failure counted under health-interval outside the start period,
  the state as it was otherwise), when the state repository and the log work and the
  workflow is health-interval, or start-period with a prior status that is not Healthy and
  the probe started within the start period. Under the start-period workflow with a status
  already Healthy or the start period expired, neither the state nor the log is written.
\<close>

theorem probe_error_is_returned_and_recorded_unless_start_period_returns_early:
  assumes "prepareProcessSpec env container hc = Inr (Some processSpec)"
    and "fst (probeHealthCheck env task hc processSpec) = Inl err"
  shows "fst (ExecuteHealthCheck env task container hc workflowType)
           = Some (Wrapped ''health check probe failed: '' err)
       \<and> Unwrap (Wrapped ''health check probe failed: '' err) = Some err
       \<and> snd (snd (ExecuteHealthCheck env task container hc workflowType))
           = snd (updateHealthStatus env container hc
                    \<lparr>Start = now_start env, End = now_end env, ExitCode = - 1,
                     Output = Error_text err\<rparr> workflowType)
       \<and> (stateRepositoryWorks env \<and> healthlog_err env = None
            \<and> (workflowType = ''health-interval'' \<or>
                 (workflowType = ''start-period'' \<and> Status (currentHealthOf container) \<noteq> Healthy
                    \<and> stillInStartPeriod container hc
                         \<lparr>Start = now_start env, End = now_end env, ExitCode = - 1,
                          Output = Error_text err\<rparr>))
          \<longrightarrow> HealthLog (snd (snd (ExecuteHealthCheck env task container hc workflowType)))
                = keep_last (MaxLogEntries env)
                    (HealthLog container @
                       [\<lparr>Start = now_start env, End = now_end env, ExitCode = - 1,
                         Output = Error_text err\<rparr>])
              \<and> HealthStateLabel (snd (snd (ExecuteHealthCheck env task container hc workflowType)))
                = Some (if workflowType = ''health-interval''
                           \<and> \<not> stillInStartPeriod container hc
                                  \<lparr>Start = now_start env, End = now_end env, ExitCode = - 1,
                                   Output = Error_text err\<rparr>
                        then \<lparr>Status = (if sint (Retries hc)
                                             \<le> sint (FailingStreak (currentHealthOf container) + 1)
                                          then Unhealthy else Status (currentHealthOf container)),
                              FailingStreak = FailingStreak (currentHealthOf container) + 1\<rparr>
                        else currentHealthOf container))
       \<and> (workflowType = ''start-period''
            \<and> (Status (currentHealthOf container) = Healthy
                 \<or> \<not> stillInStartPeriod container hc
                        \<lparr>Start = now_start env, End = now_end env, ExitCode = - 1,
                         Output = Error_text err\<rparr>)
          \<longrightarrow> HealthLog (snd (snd (ExecuteHealthCheck env task container hc workflowType)))
                = HealthLog container
              \<and> HealthStateLabel (snd (snd (ExecuteHealthCheck env task container hc workflowType)))
                = HealthStateLabel container)"
proof -
  let ?failed = "\<lparr>Start = now_start env, End = now_end env, ExitCode = - 1,
                  Output = Error_text err\<rparr>"
  have failing: "ExitCode ?failed \<noteq> 0"
    by simp
  have after: "snd (snd (ExecuteHealthCheck env task container hc workflowType))
                 = snd (updateHealthStatus env container hc ?failed workflowType)"
    and returned: "fst (ExecuteHealthCheck env task container hc workflowType)
                 = Some (Wrapped ''health check probe failed: '' err)"
    by (simp_all add: ExecuteHealthCheck_probe_error [OF assms])
  have recorded: "HealthLog (snd (updateHealthStatus env container hc ?failed workflowType))
                = keep_last (MaxLogEntries env) (HealthLog container @ [?failed])
              \<and> HealthStateLabel (snd (updateHealthStatus env container hc ?failed workflowType))
                = Some (if workflowType = ''health-interval''
                           \<and> \<not> stillInStartPeriod container hc ?failed
                        then \<lparr>Status = (if sint (Retries hc)
                                             \<le> sint (FailingStreak (currentHealthOf container) + 1)
                                          then Unhealthy else Status (currentHealthOf container)),
                              FailingStreak = FailingStreak (currentHealthOf container) + 1\<rparr>
                        else currentHealthOf container)"
    if "stateRepositoryWorks env" and "healthlog_err env = None"
      and "workflowType = ''health-interval'' \<or>
           (workflowType = ''start-period'' \<and> Status (currentHealthOf container) \<noteq> Healthy
              \<and> stillInStartPeriod container hc ?failed)"
    using failure_is_recorded [OF that(1,2) failing that(3)] .
  have skipped: "HealthLog (snd (updateHealthStatus env container hc ?failed workflowType))
                = HealthLog container
              \<and> HealthStateLabel (snd (updateHealthStatus env container hc ?failed workflowType))
                = HealthStateLabel container"
    if "workflowType = ''start-period''"
      and "Status (currentHealthOf container) = Healthy
           \<or> \<not> stillInStartPeriod container hc ?failed"
    using start_period_early_return_writes_nothing [OF that(2), of env] that(1) by simp
  show ?thesis
    unfolding after returned
    using recorded skipped by (intro conjI impI) (simp_all only: Unwrap.simps)
qed


text \<open>
  The amended C6 on the samples, the runtime failing to start the probe: under
  health-interval the failure is counted and logged; under start-period within the start
  period it is logged and the state written as it was; under start-period after the start
  period nothing is written.
\<close>

theorem probe_error_witness:
  "prepareProcessSpec start_error_env sample_container sample_config = Inr (Some sample_process)
   \<and> fst (probeHealthCheck start_error_env sample_task sample_config sample_process)
       = Inl (Wrapped ''start error: '' (Error ''container not running''))
   \<and> prepareProcessSpec early_start_error_env sample_container sample_config
       = Inr (Some sample_process)
   \<and> fst (probeHealthCheck early_start_error_env sample_task sample_config sample_process)
       = Inl (Wrapped ''start error: '' (Error ''container not running''))
   \<and> fst (ExecuteHealthCheck start_error_env sample_task sample_container sample_config ''health-interval'')
       = Some (Wrapped ''health check probe failed: ''
                 (Wrapped ''start error: '' (Error ''container not running'')))
   \<and> HealthStateLabel (snd (snd (ExecuteHealthCheck start_error_env sample_task sample_container
        sample_config ''health-interval''))) = Some \<lparr>Status = Starting, FailingStreak = 1\<rparr>
   \<and> HealthLog (snd (snd (ExecuteHealthCheck start_error_env sample_task sample_container
        sample_config ''health-interval'')))
       = [\<lparr>Start = 1000000000, End = 1200000000, ExitCode = - 1,
           Output = ''start error: container not running''\<rparr>]
   \<and> HealthStateLabel (snd (snd (ExecuteHealthCheck early_start_error_env sample_task
        sample_container sample_config ''start-period''))) = Some \<lparr>Status = Starting, FailingStreak = 0\<rparr>
   \<and> HealthLog (snd (snd (ExecuteHealthCheck early_start_error_env sample_task sample_container
        sample_config ''start-period'')))
       = [\<lparr>Start = 100000000, End = 200000000, ExitCode = - 1,
           Output = ''start error: container not running''\<rparr>]
   \<and> HealthStateLabel (snd (snd (ExecuteHealthCheck start_error_env sample_task
        sample_container sample_config ''start-period''))) = None
   \<and> HealthLog (snd (snd (ExecuteHealthCheck start_error_env sample_task sample_container
        sample_config ''start-period''))) = []"
proof -
  let ?err = "Wrapped ''start error: '' (Error ''container not running'')"
  let ?late = "\<lparr>Start = now_start start_error_env, End = now_end start_error_env,
                ExitCode = - 1, Output = Error_text ?err\<rparr>"
  let ?early = "\<lparr>Start = now_start early_start_error_env, End = now_end early_start_error_env,
                 ExitCode = - 1, Output = Error_text ?err\<rparr>"
  have prepare: "prepareProcessSpec start_error_env sample_container sample_config
                   = Inr (Some sample_process)"
    by (simp add: probe_defs start_error_env_def sample_process_def sample_defs)
  have probe: "fst (probeHealthCheck start_error_env sample_task sample_config sample_process)
                 = Inl ?err"
    by (simp add: probe_defs start_error_env_def sample_process_def sample_defs)
  have prepare': "prepareProcessSpec early_start_error_env sample_container sample_config
                   = Inr (Some sample_process)"
    by (simp add: probe_defs early_start_error_env_def sample_process_def sample_defs)
  have probe': "fst (probeHealthCheck early_start_error_env sample_task sample_config sample_process)
                 = Inl ?err"
    by (simp add: probe_defs early_start_error_env_def sample_process_def sample_defs)
  have works: "stateRepositoryWorks start_error_env \<and> healthlog_err start_error_env = None"
    "stateRepositoryWorks early_start_error_env \<and> healthlog_err early_start_error_env = None"
    by (simp_all add: property_defs start_error_env_def early_start_error_env_def sample_defs)
  have fresh: "Status (currentHealthOf sample_container) \<noteq> Healthy"
    by (simp add: property_defs sample_defs)
  have late: "\<not> stillInStartPeriod sample_container sample_config ?late"
    by (simp add: property_defs start_error_env_def sample_defs
        Time_Sub_def minDuration_def maxDuration_def)
  have early: "stillInStartPeriod sample_container sample_config ?early"
    by (simp add: property_defs early_start_error_env_def sample_defs
        Time_Sub_def minDuration_def maxDuration_def)
  note interval = probe_error_is_returned_and_recorded_unless_start_period_returns_early
            [OF prepare probe, where workflowType = "''health-interval''"]
  note grace = probe_error_is_returned_and_recorded_unless_start_period_returns_early
            [OF prepare' probe', where workflowType = "''start-period''"]
  note expired = probe_error_is_returned_and_recorded_unless_start_period_returns_early
            [OF prepare probe, where workflowType = "''start-period''"]
  have returned: "fst (ExecuteHealthCheck start_error_env sample_task sample_container
                    sample_config ''health-interval'')
                  = Some (Wrapped ''health check probe failed: '' ?err)"
    using interval by blast
  have recorded: "HealthLog (snd (snd (ExecuteHealthCheck start_error_env sample_task
                   sample_container sample_config ''health-interval'')))
                 = keep_last (MaxLogEntries start_error_env) (HealthLog sample_container @ [?late])
               \<and> HealthStateLabel (snd (snd (ExecuteHealthCheck start_error_env sample_task
                   sample_container sample_config ''health-interval'')))
                 = Some (if ''health-interval'' = ''health-interval''
                            \<and> \<not> stillInStartPeriod sample_container sample_config ?late
                         then \<lparr>Status = (if sint (Retries sample_config)
                                              \<le> sint (FailingStreak (currentHealthOf sample_container) + 1)
                                           then Unhealthy else Status (currentHealthOf sample_container)),
                               FailingStreak = FailingStreak (currentHealthOf sample_container) + 1\<rparr>
                         else currentHealthOf sample_container)"
    using interval works(1) by blast
  have late_log: "keep_last (MaxLogEntries start_error_env) (HealthLog sample_container @ [?late])
                 = [\<lparr>Start = 1000000000, End = 1200000000, ExitCode = - 1,
                     Output = ''start error: container not running''\<rparr>]"
    by (simp add: keep_last_def start_error_env_def sample_defs)
  have late_state: "(if ''health-interval'' = ''health-interval''
                            \<and> \<not> stillInStartPeriod sample_container sample_config ?late
                         then \<lparr>Status = (if sint (Retries sample_config)
                                              \<le> sint (FailingStreak (currentHealthOf sample_container) + 1)
                                           then Unhealthy else Status (currentHealthOf sample_container)),
                               FailingStreak = FailingStreak (currentHealthOf sample_container) + 1\<rparr>
                         else currentHealthOf sample_container)
                 = \<lparr>Status = Starting, FailingStreak = 1\<rparr>"
    using late by (simp add: currentHealthOf_def sample_defs)
  have counted: "HealthStateLabel (snd (snd (ExecuteHealthCheck start_error_env sample_task
                   sample_container sample_config ''health-interval'')))
                 = Some \<lparr>Status = Starting, FailingStreak = 1\<rparr>"
    and logged: "HealthLog (snd (snd (ExecuteHealthCheck start_error_env sample_task
                   sample_container sample_config ''health-interval'')))
                 = [\<lparr>Start = 1000000000, End = 1200000000, ExitCode = - 1,
                     Output = ''start error: container not running''\<rparr>]"
    using recorded by (simp_all only: late_log late_state)
  have recorded': "HealthLog (snd (snd (ExecuteHealthCheck early_start_error_env sample_task
                   sample_container sample_config ''start-period'')))
                 = keep_last (MaxLogEntries early_start_error_env) (HealthLog sample_container @ [?early])
               \<and> HealthStateLabel (snd (snd (ExecuteHealthCheck early_start_error_env sample_task
                   sample_container sample_config ''start-period'')))
                 = Some (if ''start-period'' = ''health-interval''
                            \<and> \<not> stillInStartPeriod sample_container sample_config ?early
                         then \<lparr>Status = (if sint (Retries sample_config)
                                              \<le> sint (FailingStreak (currentHealthOf sample_container) + 1)
                                           then Unhealthy else Status (currentHealthOf sample_container)),
                               FailingStreak = FailingStreak (currentHealthOf sample_container) + 1\<rparr>
                         else currentHealthOf sample_container)"
    using grace works(2) fresh early by blast
  have early_log: "keep_last (MaxLogEntries early_start_error_env) (HealthLog sample_container @ [?early])
                 = [\<lparr>Start = 100000000, End = 200000000, ExitCode = - 1,
                     Output = ''start error: container not running''\<rparr>]"
    by (simp add: keep_last_def early_start_error_env_def sample_defs)
  have early_state: "(if ''start-period'' = ''health-interval''
                            \<and> \<not> stillInStartPeriod sample_container sample_config ?early
                         then \<lparr>Status = (if sint (Retries sample_config)
                                              \<le> sint (FailingStreak (currentHealthOf sample_container) + 1)
                                           then Unhealthy else Status (currentHealthOf sample_container)),
                               FailingStreak = FailingStreak (currentHealthOf sample_container) + 1\<rparr>
                         else currentHealthOf sample_container)
                 = \<lparr>Status = Starting, FailingStreak = 0\<rparr>"
    by (simp add: currentHealthOf_def sample_defs)
  have kept: "HealthStateLabel (snd (snd (ExecuteHealthCheck early_start_error_env sample_task
                   sample_container sample_config ''start-period'')))
                 = Some \<lparr>Status = Starting, FailingStreak = 0\<rparr>"
    and logged': "HealthLog (snd (snd (ExecuteHealthCheck early_start_error_env sample_task
                   sample_container sample_config ''start-period'')))
                 = [\<lparr>Start = 100000000, End = 200000000, ExitCode = - 1,
                     Output = ''start error: container not running''\<rparr>]"
    using recorded' by (simp_all only: early_log early_state)
  have skipped: "HealthLog (snd (snd (ExecuteHealthCheck start_error_env sample_task
                   sample_container sample_config ''start-period''))) = HealthLog sample_container
               \<and> HealthStateLabel (snd (snd (ExecuteHealthCheck start_error_env sample_task
                   sample_container sample_config ''start-period''))) = HealthStateLabel sample_container"
    using expired late by blast
  have empty: "HealthLog sample_container = []" "HealthStateLabel sample_container = None"
    by (simp_all add: sample_defs)
  have untouched: "HealthStateLabel (snd (snd (ExecuteHealthCheck start_error_env sample_task
                   sample_container sample_config ''start-period''))) = None"
    and unlogged: "HealthLog (snd (snd (ExecuteHealthCheck start_error_env sample_task
                   sample_container sample_config ''start-period''))) = []"
    using skipped by (simp_all only: empty)
  show ?thesis
    using prepare probe prepare' probe' returned counted logged kept logged' untouched unlogged
    by simp
qed

text \<open>
  C6 as stated fails: under the start-period workflow, with the probe started one second
  after creation, past the start period, the error is returned but the failed result is
  not recorded: the persisted state and the health log are as they were.
\<close>

theorem probe_error_after_start_period_counterexample:
  "prepareProcessSpec start_error_env sample_container sample_config = Inr (Some sample_process)
   \<and> fst (probeHealthCheck start_error_env sample_task sample_config sample_process)
       = Inl (Wrapped ''start error: '' (Error ''container not running''))
   \<and> fst (ExecuteHealthCheck start_error_env sample_task sample_container sample_config ''start-period'')
       = Some (Wrapped ''health check probe failed: ''
                 (Wrapped ''start error: '' (Error ''container not running'')))
   \<and> HealthStateLabel (snd (snd (ExecuteHealthCheck start_error_env sample_task sample_container
        sample_config ''start-period''))) = HealthStateLabel sample_container
   \<and> HealthLog (snd (snd (ExecuteHealthCheck start_error_env sample_task sample_container
        sample_config ''start-period''))) = HealthLog sample_container
   \<and> \<lparr>Start = 1000000000, End = 1200000000, ExitCode = - 1,
        Output = ''start error: container not running''\<rparr>
       \<notin> set (HealthLog (snd (snd (ExecuteHealthCheck start_error_env sample_task sample_container
              sample_config ''start-period''))))"
  by (simp add: probe_defs update_defs start_error_env_def sample_process_def sample_defs)

section \<open>Unknown workflow tags\<close>

text \<open>
  C7. For every workflow tag other than \<^verbatim>\<open>health-interval\<close> and \<^verbatim>\<open>start-period\<close>,
  \<^verbatim>\<open>updateHealthStatus\<close> returns an error and leaves the container exactly as it was:
  neither the persisted health state nor the health log is written. When the state and
  the container info can be read, the error is \<^verbatim>\<open>unknown workflow type: <tag>\<close>.
\<close>

theorem unknown_workflow_is_error_without_mutation:
  assumes "workflowType \<noteq> ''start-period''" and "workflowType \<noteq> ''health-interval''"
  shows "(\<exists>err. updateHealthStatus env container hcConfig hcResult workflowType = (Some err, container))
       \<and> (labels_err env = None \<and> info_err env = None \<longrightarrow>
            updateHealthStatus env container hcConfig hcResult workflowType
              = (Some (Error (''unknown workflow type: '' @ workflowType)), container))"
  using assms
  by (simp add: updateHealthStatus_def updateHealthStatus_switch_def readHealthStateFromLabels_def
      container_Info_def Let_def split: option.split)

text \<open>C7 on the samples: the tag \<^verbatim>\<open>cron\<close>.\<close>

theorem unknown_workflow_witness:
  "''cron'' \<noteq> ''start-period'' \<and> ''cron'' \<noteq> ''health-interval''
   \<and> updateHealthStatus sample_env sample_container sample_config sample_failure ''cron''
       = (Some (Error ''unknown workflow type: cron''), sample_container)"
  using unknown_workflow_is_error_without_mutation
          [where workflowType = "''cron''" and env = sample_env and container = sample_container
             and hcConfig = sample_config and hcResult = sample_failure]
  by (simp add: sample_defs)

section \<open>Command resolution\<close>

text \<open>
  C8. For a config whose \<^verbatim>\<open>Test\<close> starts with the shell tag, \<^verbatim>\<open>prepareProcessSpec\<close>
  returns the error \<^verbatim>\<open>no health check command specified\<close> when the second element is
  missing or blank after trimming, and then \<^verbatim>\<open>ExecuteHealthCheck\<close> returns that error with
  the task and the container untouched: no process is spawned. For a second element that
  is not blank the resolved argument vector is \<^verbatim>\<open>/bin/sh\<close>, \<^verbatim>\<open>-c\<close> and the remaining
  elements joined by spaces, placed in a process spec with the container's environment,
  user and working directory (or the failure to read the container's spec is returned).
\<close>

theorem shell_command_resolution:
  assumes "Test hc = CmdShell # rest"
  shows "prepareProcessSpec env container hc =
           (if rest = [] \<or> TrimSpace (hd rest) = [] then
              Inl (Error ''no health check command specified'')
            else case spec_err env of
                   Some err \<Rightarrow> Inl (Wrapped ''failed to get container spec: '' err)
                 | None \<Rightarrow>
                     Inr (Some \<lparr>Args = [''/bin/sh'', ''-c'', Join rest '' ''],
                                Env = Env (SpecProcess container),
                                User = User (SpecProcess container),
                                Cwd = Cwd (SpecProcess container)\<rparr>))
       \<and> (rest = [] \<or> TrimSpace (hd rest) = [] \<longrightarrow>
            ExecuteHealthCheck env task container hc workflowType
              = (Some (Error ''no health check command specified''), task, container))"
  using assms
  by (cases rest)
     (simp_all add: ExecuteHealthCheck_def prepareProcessSpec_def container_Spec_def
        CmdShell_def Cmd_def CmdNone_def TestNone_def Let_def split: option.split)

text \<open>
  C8 on the samples: a shell string of two spaces is rejected and nothing is spawned; the
  shell string \<^verbatim>\<open>exit 1\<close> resolves to \<^verbatim>\<open>/bin/sh -c "exit 1"\<close>.
\<close>

theorem shell_command_witness:
  "Test (sample_config\<lparr>Test := [''CMD-SHELL'', ''  '']\<rparr>) = CmdShell # [''  '']
   \<and> Test sample_config = CmdShell # [''exit 1'']
   \<and> prepareProcessSpec sample_env sample_container (sample_config\<lparr>Test := [''CMD-SHELL'', ''  '']\<rparr>)
       = Inl (Error ''no health check command specified'')
   \<and> ExecuteHealthCheck sample_env sample_task sample_container
        (sample_config\<lparr>Test := [''CMD-SHELL'', ''  '']\<rparr>) ''health-interval''
       = (Some (Error ''no health check command specified''), sample_task, sample_container)
   \<and> prepareProcessSpec sample_env sample_container sample_config = Inr (Some sample_process)"
proof -
  have blank: "Test (sample_config\<lparr>Test := [''CMD-SHELL'', ''  '']\<rparr>) = CmdShell # [''  '']"
    by (simp add: CmdShell_def)
  have given: "Test sample_config = CmdShell # [''exit 1'']"
    by (simp add: CmdShell_def sample_defs)
  show ?thesis
    using shell_command_resolution
            [OF blank, where env = sample_env and container = sample_container
               and task = sample_task and workflowType = "''health-interval''"]
          shell_command_resolution
            [OF given, where env = sample_env and container = sample_container
               and task = sample_task and workflowType = "''health-interval''"]
          blank given
    by (simp add: TrimSpace_def asciiSpace_def twoByteSpace_def threeByteSpace_def
        sample_process_def sample_defs)
qed

text \<open>
  C9. For a config whose \<^verbatim>\<open>Test[0]\<close> is a None tag, \<^verbatim>\<open>prepareProcessSpec\<close> returns no
  spec and no error, and \<^verbatim>\<open>ExecuteHealthCheck\<close> returns success with the task and the
  container untouched: no process is spawned, and neither the persisted health state nor
  the health log is written.
\<close>

theorem none_tag_is_a_noop:
  assumes "Test hc = tag # rest" and "tag = TestNone \<or> tag = CmdNone"
  shows "prepareProcessSpec env container hc = Inr None
       \<and> ExecuteHealthCheck env task container hc workflowType = (None, task, container)"
  using assms
  by (auto simp add: ExecuteHealthCheck_def prepareProcessSpec_def Let_def)

text \<open>C9 on the samples: the test \<^verbatim>\<open>["NONE"]\<close>.\<close>

theorem none_tag_witness:
  "Test (sample_config\<lparr>Test := [''NONE'']\<rparr>) = ''NONE'' # []
   \<and> (''NONE'' = TestNone \<or> ''NONE'' = CmdNone)
   \<and> ExecuteHealthCheck sample_env sample_task sample_container
        (sample_config\<lparr>Test := [''NONE'']\<rparr>) ''health-interval''
       = (None, sample_task, sample_container)"
proof -
  have test: "Test (sample_config\<lparr>Test := [''NONE'']\<rparr>) = ''NONE'' # []"
    by simp
  have tag: "''NONE'' = TestNone \<or> ''NONE'' = CmdNone"
    by (simp add: CmdNone_def)
  show ?thesis
    using none_tag_is_a_noop [OF test tag] test tag by simp
qed

section \<open>A persistence error after a probe error\<close>

text \<open>
  C10. When the probe fails with an infrastructure error and \<^verbatim>\<open>updateHealthStatus\<close> then
  fails to record the failed result, that second error is discarded:
  \<^verbatim>\<open>ExecuteHealthCheck\<close> returns only the wrapped probe error, the same value it returns in
  the environment that differs only in that reading and writing the state and the log
  succeed, where \<^verbatim>\<open>updateHealthStatus\<close> on the failed result returns no error under either
  known workflow. The caller cannot tell from it whether the failed result was recorded.
\<close>

theorem persistence_error_after_probe_error_is_discarded:
  assumes "prepareProcessSpec env container hc = Inr (Some processSpec)"
    and "fst (probeHealthCheck env task hc processSpec) = Inl err"
    and "fst (updateHealthStatus env container hc
                \<lparr>Start = now_start env, End = now_end env, ExitCode = - 1,
                 Output = Error_text err\<rparr> workflowType) = Some persistErr"
  shows "fst (ExecuteHealthCheck env task container hc workflowType)
           = Some (Wrapped ''health check probe failed: '' err)
       \<and> fst (ExecuteHealthCheck env task container hc workflowType)
           = fst (ExecuteHealthCheck
                   (env\<lparr>labels_err := None, info_err := None, setlabels_err := None,
                        healthlog_err := None\<rparr>) task container hc workflowType)
       \<and> (workflowType = ''health-interval'' \<or> workflowType = ''start-period'' \<longrightarrow>
            fst (updateHealthStatus
                   (env\<lparr>labels_err := None, info_err := None, setlabels_err := None,
                        healthlog_err := None\<rparr>) container hc
                   \<lparr>Start = now_start env, End = now_end env, ExitCode = - 1,
                    Output = Error_text err\<rparr> workflowType) = None)"
proof -
  let ?env' = "env\<lparr>labels_err := None, info_err := None, setlabels_err := None, healthlog_err := None\<rparr>"
  have prepare': "prepareProcessSpec ?env' container hc = Inr (Some processSpec)"
    using assms(1) by (simp only: prepareProcessSpec_ignores_repository)
  have probe': "fst (probeHealthCheck ?env' task hc processSpec) = Inl err"
    using assms(2) by (simp only: probeHealthCheck_ignores_repository)
  have works: "stateRepositoryWorks ?env'" and log: "healthlog_err ?env' = None"
    by (simp_all add: stateRepositoryWorks_def)
  show ?thesis
    using updateHealthStatus_succeeds [OF works log]
    by (simp add: ExecuteHealthCheck_probe_error [OF assms(1,2)]
        ExecuteHealthCheck_probe_error [OF prepare' probe'])
qed

text \<open>
  C10 on the samples: the runtime fails to start the probe and the label store rejects the
  write. The write error is not in the value returned, and the container is left as it
  was.
\<close>

theorem persistence_error_witness:
  "prepareProcessSpec broken_store_env sample_container sample_config = Inr (Some sample_process)
   \<and> fst (probeHealthCheck broken_store_env sample_task sample_config sample_process)
       = Inl (Wrapped ''start error: '' (Error ''container not running''))
   \<and> fst (updateHealthStatus broken_store_env sample_container sample_config
        \<lparr>Start = now_start broken_store_env, End = now_end broken_store_env, ExitCode = - 1,
         Output = Error_text (Wrapped ''start error: '' (Error ''container not running''))\<rparr>
        ''health-interval'')
       = Some (Wrapped ''failed to write health state to labels: '' (Error ''label store unavailable''))
   \<and> fst (ExecuteHealthCheck broken_store_env sample_task sample_container sample_config
        ''health-interval'')
       = Some (Wrapped ''health check probe failed: ''
                 (Wrapped ''start error: '' (Error ''container not running'')))
   \<and> snd (snd (ExecuteHealthCheck broken_store_env sample_task sample_container sample_config
        ''health-interval'')) = sample_container"
proof -
  have prepare: "prepareProcessSpec broken_store_env sample_container sample_config
                   = Inr (Some sample_process)"
    by (simp add: probe_defs broken_store_env_def sample_process_def sample_defs)
  have probe: "fst (probeHealthCheck broken_store_env sample_task sample_config sample_process)
                 = Inl (Wrapped ''start error: '' (Error ''container not running''))"
    by (simp add: probe_defs broken_store_env_def sample_process_def sample_defs)
  have persist: "fst (updateHealthStatus broken_store_env sample_container sample_config
        \<lparr>Start = now_start broken_store_env, End = now_end broken_store_env, ExitCode = - 1,
         Output = Error_text (Wrapped ''start error: '' (Error ''container not running''))\<rparr>
        ''health-interval'')
       = Some (Wrapped ''failed to write health state to labels: '' (Error ''label store unavailable''))"
    by (simp add: update_defs broken_store_env_def sample_defs)
  have left: "snd (snd (ExecuteHealthCheck broken_store_env sample_task sample_container
                sample_config ''health-interval'')) = sample_container"
    by (simp add: ExecuteHealthCheck_probe_error [OF prepare probe]) (simp add: update_defs broken_store_env_def sample_defs)
  show ?thesis
    using persistence_error_after_probe_error_is_discarded [OF prepare probe persist]
          prepare probe persist left
    by simp
qed

end
